theory Spec2Isabelle
  imports Main "HOL-Library.Sublist"
begin

section \<open>Python values used by app.py\<close>

text \<open>
  Exceptions are values. The only handler of \<^verbatim>\<open>app.py\<close> is \<^verbatim>\<open>except ValueError\<close>, so an
  exception is either a \<open>ValueError\<close> (or an instance of one of its subclasses) or any
  other exception, which no handler of the program catches.
\<close>

datatype exn = ValueError | OtherException string

text \<open>\<^verbatim>\<open>s.strip("/")\<close>: the characters of the argument are removed at both ends.\<close>

definition strip_chars :: "char list \<Rightarrow> string \<Rightarrow> string" where
  "strip_chars cs s =
     rev (dropWhile (\<lambda>c. c \<in> set cs) (rev (dropWhile (\<lambda>c. c \<in> set cs) s)))"

text \<open>\<^verbatim>\<open>s.count("/")\<close> for a separator of one character.\<close>

definition count_char :: "char \<Rightarrow> string \<Rightarrow> nat" where
  "count_char c s = length (filter (\<lambda>x. x = c) s)"

text \<open>\<^verbatim>\<open>s.split(c, 1)\<close>: at most one split, at the first occurrence of the separator.\<close>

definition split1 :: "char \<Rightarrow> string \<Rightarrow> string list" where
  "split1 c s =
     (if c \<in> set s then [takeWhile (\<lambda>x. x \<noteq> c) s, tl (dropWhile (\<lambda>x. x \<noteq> c) s)]
      else [s])"

text \<open>
  \<^verbatim>\<open>user, repo = xs\<close>: unpacking into two names raises \<open>ValueError\<close> unless the list has
  exactly two elements.
\<close>

fun unpack2 :: "'a list \<Rightarrow> exn + ('a \<times> 'a)" where
  "unpack2 [a, b] = Inr (a, b)"
| "unpack2 _ = Inl ValueError"

text \<open>\<^verbatim>\<open>s.split(",")\<close>: every occurrence splits; the result is never empty.\<close>

fun split_all :: "char \<Rightarrow> string \<Rightarrow> string list" where
  "split_all c [] = [[]]"
| "split_all c (x # xs) =
     (if x = c then [] # split_all c xs
      else (case split_all c xs of
              [] \<Rightarrow> [[x]]
            | w # ws \<Rightarrow> (x # w) # ws))"

text \<open>
  \<^verbatim>\<open>s.strip()\<close> removes whitespace at both ends. Strings are taken as ASCII here; the ASCII
  characters for which \<^verbatim>\<open>str.isspace\<close> holds are 9 to 13 and 28 to 32.
\<close>

definition is_space :: "char \<Rightarrow> bool" where
  "is_space c = (let n = (of_char c :: nat) in (9 \<le> n \<and> n \<le> 13) \<or> (28 \<le> n \<and> n \<le> 32))"

definition strip_ws :: "string \<Rightarrow> string" where
  "strip_ws s = rev (dropWhile is_space (rev (dropWhile is_space s)))"

section \<open>The result of \<^verbatim>\<open>urllib.parse.urlparse\<close>\<close>

record parse_result =
  scheme :: string
  netloc :: string
  path :: string
  params :: string
  query :: string
  fragment :: string

text \<open>
  \<^verbatim>\<open>urlparse\<close> belongs to the Python standard library, not to the repository. The functions
  of \<^verbatim>\<open>app.py\<close> below take it from the library record, so the general theorems hold for
  whatever it returns. To evaluate the program on concrete URL strings, \<open>urlparse_py\<close>
  follows the text of CPython 3.11's \<^verbatim>\<open>urlsplit\<close> and \<^verbatim>\<open>urlparse\<close> on ASCII strings. The
  two checks that leave string processing (\<^verbatim>\<open>_check_bracketed_host\<close>, which calls the
  \<^verbatim>\<open>ipaddress\<close> module, and the NFKC test of \<^verbatim>\<open>_checknetloc\<close> on a non-ASCII host) are
  arguments.
\<close>

definition is_ascii_alpha :: "char \<Rightarrow> bool" where
  "is_ascii_alpha c =
     (let n = (of_char c :: nat) in (65 \<le> n \<and> n \<le> 90) \<or> (97 \<le> n \<and> n \<le> 122))"

definition is_scheme_char :: "char \<Rightarrow> bool" where
  "is_scheme_char c =
     (let n = (of_char c :: nat)
      in is_ascii_alpha c \<or> (48 \<le> n \<and> n \<le> 57) \<or> c \<in> set ''+-.'')"

definition lower_char :: "char \<Rightarrow> char" where
  "lower_char c =
     (let n = (of_char c :: nat) in if 65 \<le> n \<and> n \<le> 90 then char_of (n + 32) else c)"

definition uses_params :: "string list" where
  "uses_params = ['''', ''ftp'', ''hdl'', ''prospero'', ''http'', ''imap'',
                  ''https'', ''shttp'', ''rtsp'', ''rtsps'', ''rtspu'', ''sip'',
                  ''sips'', ''mms'', ''sftp'', ''tel'']"

text \<open>The scheme, when the text before the first colon is one, and the rest of the URL.\<close>

definition split_scheme :: "string \<Rightarrow> string \<times> string" where
  "split_scheme url =
     (let pre = takeWhile (\<lambda>c. c \<noteq> CHR '':'') url
      in if CHR '':'' \<in> set url \<and> pre \<noteq> [] \<and> is_ascii_alpha (hd pre)
            \<and> list_all is_scheme_char pre
         then (map lower_char pre, drop (length pre + 1) url)
         else ('''', url))"

text \<open>\<^verbatim>\<open>_splitnetloc(url, 2)\<close>: the host part ends at the first of \<^verbatim>\<open>/ ? #\<close>.\<close>

definition splitnetloc :: "string \<Rightarrow> string \<times> string" where
  "splitnetloc url =
     (let r = drop 2 url; is_delim = (\<lambda>c. c \<in> set ''/?#'')
      in (takeWhile (\<lambda>c. \<not> is_delim c) r, dropWhile (\<lambda>c. \<not> is_delim c) r))"

text \<open>\<^verbatim>\<open>netloc.partition('[')[2].partition(']')[0]\<close>\<close>

definition bracketed_host :: "string \<Rightarrow> string" where
  "bracketed_host nl =
     takeWhile (\<lambda>c. c \<noteq> CHR '']'') (tl (dropWhile (\<lambda>c. c \<noteq> CHR ''['') nl))"

definition splitparams :: "string \<Rightarrow> string \<times> string" where
  "splitparams url =
     (if CHR ''/'' \<in> set url then
        (let last_seg = rev (takeWhile (\<lambda>c. c \<noteq> CHR ''/'') (rev url));
             head = take (length url - length last_seg) url
         in if CHR '';'' \<in> set last_seg
            then (head @ takeWhile (\<lambda>c. c \<noteq> CHR '';'') last_seg,
                  tl (dropWhile (\<lambda>c. c \<noteq> CHR '';'') last_seg))
            else (url, ''''))
      else (takeWhile (\<lambda>c. c \<noteq> CHR '';'') url, tl (dropWhile (\<lambda>c. c \<noteq> CHR '';'') url)))"

definition urlparse_py :: "(string \<Rightarrow> bool) \<Rightarrow> (string \<Rightarrow> bool) \<Rightarrow> string \<Rightarrow> exn + parse_result" where
  "urlparse_py check_bracketed_host checknetloc url0 =
     (let url1 = dropWhile (\<lambda>c. (of_char c :: nat) \<le> 32) url0;
          url2 = filter (\<lambda>c. c \<notin> set [CHR 0x09, CHR 0x0D, CHR 0x0A]) url1;
          (sch, url3) = split_scheme url2;
          (nl, url4) = (if take 2 url3 = ''//'' then splitnetloc url3 else ('''', url3));
          lb = CHR ''['' \<in> set nl;
          rb = CHR '']'' \<in> set nl
      in if (lb \<and> \<not> rb) \<or> (rb \<and> \<not> lb) then Inl ValueError
         else if lb \<and> rb \<and> \<not> check_bracketed_host (bracketed_host nl) then Inl ValueError
         else
           (let (url5, frag) =
                  (if CHR ''#'' \<in> set url4
                   then (takeWhile (\<lambda>c. c \<noteq> CHR ''#'') url4,
                         tl (dropWhile (\<lambda>c. c \<noteq> CHR ''#'') url4))
                   else (url4, ''''));
                (url6, qry) =
                  (if CHR ''?'' \<in> set url5
                   then (takeWhile (\<lambda>c. c \<noteq> CHR ''?'') url5,
                         tl (dropWhile (\<lambda>c. c \<noteq> CHR ''?'') url5))
                   else (url5, ''''))
            in if nl \<noteq> [] \<and> \<not> list_all (\<lambda>c. (of_char c :: nat) < 128) nl \<and> \<not> checknetloc nl
               then Inl ValueError
               else
                 (let (url7, prm) =
                        (if sch \<in> set uses_params \<and> CHR '';'' \<in> set url6
                         then splitparams url6 else (url6, ''''))
                  in Inr \<lparr>scheme = sch, netloc = nl, path = url7, params = prm,
                          query = qry, fragment = frag\<rparr>)))"

section \<open>Libraries and remote services\<close>

text \<open>
  Everything \<^verbatim>\<open>app.py\<close> imports is outside the repository: the module \<^verbatim>\<open>constant\<close> with
  the two secrets, \<^verbatim>\<open>os.environ\<close>, \<^verbatim>\<open>urlparse\<close>, \<^verbatim>\<open>requests\<close>, and the llama-index classes.
  They are the fields of one record, each call returning its value or the exception it
  raises. The objects they return (client, indices, chat engines) are opaque: type
  variables \<open>'c\<close>, \<open>'i\<close>, \<open>'s\<close>, \<open>'e\<close>. The fields \<open>engine_query\<close> and \<open>engine_chat\<close>
  are the attribute lookups \<^verbatim>\<open>engine.query\<close> and \<^verbatim>\<open>engine.chat\<close>: each gives the bound
  method, or raises \<^verbatim>\<open>AttributeError\<close> when the engine has no such attribute.
\<close>

datatype FilterType = INCLUDE | EXCLUDE

record document =
  file_path :: string
  doc_text :: string

datatype transformation = TokenTextSplitter (chunk_size: nat) (chunk_overlap: nat)

datatype ChatMode =
  SIMPLE | CONDENSE_QUESTION | CONTEXT | CONDENSE_PLUS_CONTEXT | REACT | OPENAI | BEST

text \<open>The keyword arguments of the \<^verbatim>\<open>GithubRepositoryReader\<close> constructor, as passed.\<close>

record 'c reader_args =
  arg_github_client :: "'c option"
  arg_owner :: "string option"
  arg_repo :: "string option"
  arg_use_parser :: bool
  arg_verbose :: bool
  arg_filter_directories :: "string list \<times> FilterType"
  arg_filter_file_extensions :: "string list \<times> FilterType"

record ('c, 'i, 's, 'e) library =
  Gemini_api :: string
  github_token :: string
  environ_setitem :: "string \<Rightarrow> string \<Rightarrow> exn + unit"
  Gemini :: "exn + unit"
  GeminiEmbedding :: "string \<Rightarrow> string \<Rightarrow> exn + unit"
  urlparse :: "string \<Rightarrow> exn + parse_result"
  requests_get :: "string \<Rightarrow> exn + nat"
  GithubClient :: "string \<Rightarrow> bool \<Rightarrow> exn + 'c"
  GithubRepositoryReader_load_data :: "'c reader_args \<Rightarrow> string \<Rightarrow> exn + document list"
  VectorStoreIndex_from_documents ::
    "document list \<Rightarrow> bool \<Rightarrow> transformation list option \<Rightarrow> exn + 'i"
  SummaryIndex_from_documents ::
    "document list \<Rightarrow> bool \<Rightarrow> transformation list option \<Rightarrow> exn + 's"
  index_as_chat_engine :: "'i \<Rightarrow> ChatMode \<Rightarrow> exn + 'e"
  summary_as_chat_engine :: "'s \<Rightarrow> ChatMode \<Rightarrow> exn + 'e"
  engine_query :: "'e \<Rightarrow> exn + (string \<Rightarrow> exn + string)"
  engine_chat :: "'e \<Rightarrow> exn + (string \<Rightarrow> exn + string)"

section \<open>Session state, inputs and observable calls\<close>

text \<open>An element of \<^verbatim>\<open>st.session_state.chat_history\<close>: a dict with these two keys.\<close>

record chat_entry =
  question :: string
  achat_response :: string

record ('c, 'i, 's, 'e) session_state =
  github_client :: "'c option"
  index :: "'i option"
  summary :: "'s option"
  query_engine :: "'e option"
  summary_query_engine :: "'e option"
  chat_history :: "chat_entry list"

text \<open>
  Streamlit runs \<^verbatim>\<open>main\<close> again on every interaction; the widgets return what the user
  has entered so far.
\<close>

record widgets =
  github_repo_link :: string
  branch :: string
  exclude_dirs :: bool
  excluded_dirs_input :: string
  question_input :: string
  submit_question :: bool

text \<open>
  The calls a run makes to the outside, in order, with the arguments the claims are
  about, and the error messages shown by \<^verbatim>\<open>st.error\<close>.
\<close>

datatype event =
    St_error string
  | Requests_get string
  | New_GithubClient
  | Load_data "string option" "string option" "string list \<times> FilterType"
      "string list \<times> FilterType" string
  | Build_VectorStoreIndex "document list" "transformation list option"
  | Build_SummaryIndex "document list" "transformation list option"
  | Index_as_chat_engine
  | Summary_as_chat_engine
  | Engine_query string
  | Engine_chat string

section \<open>Statements that may raise and change the state\<close>

text \<open>
  A statement takes the state and returns either a value or the exception raised,
  together with the state as it is at that point: what was assigned before an exception
  stays assigned. The state of the functions below is the session state paired with the
  calls made so far.
\<close>

type_synonym ('w, 'a) prog = "'w \<Rightarrow> (exn + 'a) \<times> 'w"

definition returnE :: "'a \<Rightarrow> ('w, 'a) prog" where
  "returnE x = (\<lambda>w. (Inr x, w))"

definition raiseE :: "exn \<Rightarrow> ('w, 'a) prog" where
  "raiseE e = (\<lambda>w. (Inl e, w))"

definition liftE :: "exn + 'a \<Rightarrow> ('w, 'a) prog" where
  "liftE r = (\<lambda>w. (r, w))"

definition bindE :: "('w, 'a) prog \<Rightarrow> ('a \<Rightarrow> ('w, 'b) prog) \<Rightarrow> ('w, 'b) prog" where
  "bindE m f = (\<lambda>w. case m w of (Inl e, w') \<Rightarrow> (Inl e, w') | (Inr x, w') \<Rightarrow> f x w')"

text \<open>\<^verbatim>\<open>try: m  except ValueError: h\<close>\<close>

definition try_except_ValueError :: "('w, 'a) prog \<Rightarrow> ('w, 'a) prog \<Rightarrow> ('w, 'a) prog" where
  "try_except_ValueError m h =
     (\<lambda>w. case m w of (Inl ValueError, w') \<Rightarrow> h w' | (r, w') \<Rightarrow> (r, w'))"

definition emit :: "event \<Rightarrow> ('ss \<times> event list, unit) prog" where
  "emit ev = (\<lambda>(ss, tr). (Inr (), (ss, tr @ [ev])))"

text \<open>An outside call: it is recorded, then it returns or raises.\<close>

definition call :: "event \<Rightarrow> exn + 'a \<Rightarrow> ('ss \<times> event list, 'a) prog" where
  "call ev r = bindE (emit ev) (\<lambda>_. liftE r)"

definition get_session :: "('ss \<times> event list, 'ss) prog" where
  "get_session = (\<lambda>(ss, tr). (Inr ss, (ss, tr)))"

definition modify_session :: "('ss \<Rightarrow> 'ss) \<Rightarrow> ('ss \<times> event list, unit) prog" where
  "modify_session f = (\<lambda>(ss, tr). (Inr (), (f ss, tr)))"

text \<open>
  \<^verbatim>\<open>executor.submit(f, ...)\<close> runs the task on a worker thread and keeps its value or its
  exception in the future; \<^verbatim>\<open>future.result()\<close> returns the one or raises the other. Leaving
  the \<^verbatim>\<open>with\<close> block waits for every submitted task, so each submitted task has run
  when the block is left, also when an earlier \<^verbatim>\<open>result()\<close> raised. The tasks of this
  program share no state, so they are run in the order of submission.
\<close>

definition executor_submit :: "('w, 'a) prog \<Rightarrow> ('w, exn + 'a) prog" where
  "executor_submit task = (\<lambda>w. case task w of (r, w') \<Rightarrow> (Inr r, w'))"

definition future_result :: "exn + 'a \<Rightarrow> ('w, 'a) prog" where
  "future_result fut = liftE fut"

section \<open>The functions of app.py\<close>

text \<open>Lines 17 to 42. The extension list is the literal of the source.\<close>

definition load_documents ::
  "('c, 'i, 's, 'e) library \<Rightarrow> 'c option \<Rightarrow> string option \<Rightarrow> string option \<Rightarrow> string list
     \<Rightarrow> string \<Rightarrow> (('c, 'i, 's, 'e) session_state \<times> event list, document list) prog" where
  "load_documents lib client user repo excluded_dirs br =
     (let filter_directories = (excluded_dirs, EXCLUDE);
          filter_file_extensions =
            ([''.png'', ''.jpg'', ''.jpeg'', ''.gif'', ''.svg'', ''.ico'', ''.pdf'', ''.csv''],
             EXCLUDE)
      in call (Load_data user repo filter_directories filter_file_extensions br)
           (GithubRepositoryReader_load_data lib
              \<lparr>arg_github_client = client, arg_owner = user, arg_repo = repo,
               arg_use_parser = True, arg_verbose = False,
               arg_filter_directories = filter_directories,
               arg_filter_file_extensions = filter_file_extensions\<rparr> br))"

text \<open>Lines 44 to 46.\<close>

definition create_index ::
  "('c, 'i, 's, 'e) library \<Rightarrow> document list \<Rightarrow> transformation list
     \<Rightarrow> (('c, 'i, 's, 'e) session_state \<times> event list, 'i) prog" where
  "create_index lib documents transformations =
     call (Build_VectorStoreIndex documents (Some transformations))
       (VectorStoreIndex_from_documents lib documents True (Some transformations))"

text \<open>
  Lines 48 to 50: no \<^verbatim>\<open>transformations\<close> argument is passed, so the parameter has its
  default \<^verbatim>\<open>None\<close>.
\<close>

definition create_summary ::
  "('c, 'i, 's, 'e) library \<Rightarrow> document list
     \<Rightarrow> (('c, 'i, 's, 'e) session_state \<times> event list, 's) prog" where
  "create_summary lib documents =
     call (Build_SummaryIndex documents None)
       (SummaryIndex_from_documents lib documents True None)"

text \<open>Lines 52 to 60. Python's \<^verbatim>\<open>None, None\<close> is the pair of two \<open>None\<close>.\<close>

definition extract_github_details ::
  "('c, 'i, 's, 'e) library \<Rightarrow> string \<Rightarrow> exn + (string option \<times> string option)" where
  "extract_github_details lib url =
     (case urlparse lib url of
        Inl e \<Rightarrow> Inl e
      | Inr parsed_url \<Rightarrow>
          (let pth = strip_chars ''/'' (path parsed_url)
           in if count_char CHR ''/'' pth = 1 then
                (case unpack2 (split1 CHR ''/'' pth) of
                   Inl e \<Rightarrow> Inl e
                 | Inr (user, repo) \<Rightarrow> Inr (Some user, Some repo))
              else Inr (None, None)))"

text \<open>Lines 62 to 66.\<close>

definition is_valid_github_url :: "('c, 'i, 's, 'e) library \<Rightarrow> string \<Rightarrow> exn + bool" where
  "is_valid_github_url lib url =
     (case urlparse lib url of
        Inl e \<Rightarrow> Inl e
      | Inr parsed_url \<Rightarrow>
          Inr (scheme parsed_url \<in> set [''http'', ''https''] \<and>
               netloc parsed_url = ''github.com'' \<and>
               prefix ''/'' (path parsed_url)))"

text \<open>Lines 68 to 77.\<close>

definition check_github_repo_exists ::
  "('c, 'i, 's, 'e) library \<Rightarrow> string
     \<Rightarrow> (('c, 'i, 's, 'e) session_state \<times> event list, bool) prog" where
  "check_github_repo_exists lib url =
     try_except_ValueError
       (bindE (liftE (urlparse lib url)) (\<lambda>parsed_url.
        bindE (liftE (unpack2 (split1 CHR ''/'' (strip_chars ''/'' (path parsed_url)))))
          (\<lambda>(user, repo).
             let api_url = ''https://github.com/'' @ user @ ''/'' @ repo
             in bindE (call (Requests_get api_url) (requests_get lib api_url)) (\<lambda>status_code.
                returnE (status_code = 200)))))
       (returnE False)"

subsection \<open>\<^verbatim>\<open>main\<close>, block by block\<close>

text \<open>Lines 101 to 115; the value tells whether \<^verbatim>\<open>main\<close> goes on (it returns at 105 and 111).\<close>

definition configure :: "('c, 'i, 's, 'e) library \<Rightarrow> ('w \<times> event list, bool) prog" where
  "configure lib =
     bindE (try_except_ValueError
              (bindE (liftE (environ_setitem lib ''GOOGLE_API_KEY'' (Gemini_api lib)))
                 (\<lambda>_. returnE True))
              (bindE (emit (St_error ''Google API key is not set.'')) (\<lambda>_. returnE False)))
       (\<lambda>go_on. if \<not> go_on then returnE False else
     bindE (try_except_ValueError
              (bindE (liftE (environ_setitem lib ''GITHUB_TOKEN'' (github_token lib)))
                 (\<lambda>_. returnE True))
              (bindE (emit (St_error ''GitHub Token API key is not set.''))
                 (\<lambda>_. returnE False)))
       (\<lambda>go_on. if \<not> go_on then returnE False else
     bindE (liftE (Gemini lib)) (\<lambda>_.
     bindE (liftE (GeminiEmbedding lib ''models/embedding-001'' (Gemini_api lib))) (\<lambda>_.
     returnE True))))"

text \<open>Lines 118 to 124.\<close>

definition initial_session :: "('c, 'i, 's, 'e) session_state" where
  "initial_session =
     \<lparr>github_client = None, index = None, summary = None, query_engine = None,
      summary_query_engine = None, chat_history = []\<rparr>"

text \<open>Lines 134 and 135.\<close>

definition make_client ::
  "('c, 'i, 's, 'e) library \<Rightarrow> (('c, 'i, 's, 'e) session_state \<times> event list, unit) prog" where
  "make_client lib =
     bindE get_session (\<lambda>ss.
     if github_client ss = None then
       bindE (call New_GithubClient (GithubClient lib (github_token lib) True)) (\<lambda>c.
       modify_session (\<lambda>s. s\<lparr>github_client := Some c\<rparr>))
     else returnE ())"

text \<open>Lines 163 to 171.\<close>

definition excluded_dirs_of :: "widgets \<Rightarrow> string list" where
  "excluded_dirs_of inp =
     (if exclude_dirs inp \<and> excluded_dirs_input inp \<noteq> []
      then map strip_ws (split_all CHR '','' (excluded_dirs_input inp))
      else [])"

text \<open>Lines 178 to 187.\<close>

definition process_data ::
  "('c, 'i, 's, 'e) library \<Rightarrow> string option \<Rightarrow> string option \<Rightarrow> string list \<Rightarrow> string
     \<Rightarrow> transformation list \<Rightarrow> (('c, 'i, 's, 'e) session_state \<times> event list, unit) prog" where
  "process_data lib user repo excluded_dirs br transformations =
     bindE get_session (\<lambda>ss.
     if index ss = None \<or> summary ss = None then
       bindE (executor_submit
                (load_documents lib (github_client ss) user repo excluded_dirs br))
         (\<lambda>future_documents.
       bindE (future_result future_documents) (\<lambda>documents.
       bindE (executor_submit (create_index lib documents transformations)) (\<lambda>future_index.
       bindE (executor_submit (create_summary lib documents)) (\<lambda>future_summary.
       bindE (future_result future_index) (\<lambda>i.
       bindE (modify_session (\<lambda>s. s\<lparr>index := Some i\<rparr>)) (\<lambda>_.
       bindE (future_result future_summary) (\<lambda>sm.
       modify_session (\<lambda>s. s\<lparr>summary := Some sm\<rparr>))))))))
     else returnE ())"

text \<open>
  Lines 189 to 192. A method call on \<^verbatim>\<open>None\<close> raises \<^verbatim>\<open>AttributeError\<close>.
\<close>

definition make_engines ::
  "('c, 'i, 's, 'e) library \<Rightarrow> (('c, 'i, 's, 'e) session_state \<times> event list, unit) prog" where
  "make_engines lib =
     bindE get_session (\<lambda>ss.
     bindE (if query_engine ss = None then
              (case index ss of
                 None \<Rightarrow> raiseE (OtherException ''AttributeError'')
               | Some i \<Rightarrow>
                   bindE (call Index_as_chat_engine (index_as_chat_engine lib i CONTEXT)) (\<lambda>e.
                   modify_session (\<lambda>s. s\<lparr>query_engine := Some e\<rparr>)))
            else returnE ()) (\<lambda>_.
     bindE get_session (\<lambda>ss.
     if summary_query_engine ss = None then
       (case summary ss of
          None \<Rightarrow> raiseE (OtherException ''AttributeError'')
        | Some sm \<Rightarrow>
            bindE (call Summary_as_chat_engine (summary_as_chat_engine lib sm CONTEXT)) (\<lambda>e.
            modify_session (\<lambda>s. s\<lparr>summary_query_engine := Some e\<rparr>)))
     else returnE ())))"

text \<open>
  Lines 225 to 238. The arguments of \<^verbatim>\<open>executor.submit\<close> are evaluated in the calling
  thread: the attribute \<^verbatim>\<open>query\<close> of the summary engine is looked up before the first
  task is submitted, and the attribute \<^verbatim>\<open>chat\<close> of the other engine after the first and
  before the second. A lookup that raises leaves the \<^verbatim>\<open>with\<close> block at that point.
\<close>

definition answer_question ::
  "('c, 'i, 's, 'e) library \<Rightarrow> widgets
     \<Rightarrow> (('c, 'i, 's, 'e) session_state \<times> event list, unit) prog" where
  "answer_question lib inp =
     (if submit_question inp then
        (if question_input inp \<noteq> [] then
           bindE get_session (\<lambda>ss.
           (case summary_query_engine ss of
              None \<Rightarrow> raiseE (OtherException ''AttributeError'')
            | Some se \<Rightarrow>
           bindE (liftE (engine_query lib se)) (\<lambda>query_method.
           bindE (executor_submit
                    (call (Engine_query (question_input inp))
                       (query_method (question_input inp)))) (\<lambda>future_summary.
           (case query_engine ss of
              None \<Rightarrow> raiseE (OtherException ''AttributeError'')
            | Some qe \<Rightarrow>
           bindE (liftE (engine_chat lib qe)) (\<lambda>chat_method.
           bindE (executor_submit
                    (call (Engine_chat (question_input inp))
                       (chat_method (question_input inp)))) (\<lambda>future_achat.
           bindE (future_result future_summary) (\<lambda>summary_response.
           bindE (future_result future_achat) (\<lambda>achat_resp.
           modify_session (\<lambda>s. s\<lparr>chat_history := chat_history s @
             [\<lparr>question = question_input inp, achat_response = achat_resp\<rparr>]\<rparr>))))))))))
         else returnE ())
      else returnE ())"

text \<open>Lines 127 to 242, on an initialised session.\<close>

definition main_body ::
  "('c, 'i, 's, 'e) library \<Rightarrow> widgets
     \<Rightarrow> (('c, 'i, 's, 'e) session_state \<times> event list, unit) prog" where
  "main_body lib inp =
     (if github_repo_link inp \<noteq> [] then
        bindE (liftE (is_valid_github_url lib (github_repo_link inp))) (\<lambda>valid.
        if \<not> valid then
          emit (St_error
            ''The URL format is incorrect. Please enter a valid GitHub repository URL.'')
        else
          bindE (check_github_repo_exists lib (github_repo_link inp)) (\<lambda>repo_exists.
          if repo_exists then
            bindE (make_client lib) (\<lambda>_.
            bindE (liftE (extract_github_details lib (github_repo_link inp)))
              (\<lambda>(user, repo).
            bindE (process_data lib user repo (excluded_dirs_of inp) (branch inp)
                     [TokenTextSplitter 512 128]) (\<lambda>_.
            bindE (make_engines lib) (\<lambda>_.
            answer_question lib inp))))
          else
            emit (St_error
              ''The GitHub repository does not exist or the URL is incorrect.'')))
      else returnE ())"

text \<open>
  \<^verbatim>\<open>main\<close>. \<^verbatim>\<open>st.session_state\<close> is \<open>None\<close> until line 118 finds the key
  \<^verbatim>\<open>github_client\<close> missing and assigns the six fields.
\<close>

definition main ::
  "('c, 'i, 's, 'e) library \<Rightarrow> widgets
     \<Rightarrow> (('c, 'i, 's, 'e) session_state option \<times> event list, unit) prog" where
  "main lib inp =
     (\<lambda>(st, tr).
        case configure lib (st, tr) of
          (Inl e, w) \<Rightarrow> (Inl e, w)
        | (Inr False, w) \<Rightarrow> (Inr (), w)
        | (Inr True, (st', tr')) \<Rightarrow>
            (let ss = (case st' of None \<Rightarrow> initial_session | Some s \<Rightarrow> s)
             in case main_body lib inp (ss, tr') of
                  (r, (ss', tr'')) \<Rightarrow> (r, (Some ss', tr''))))"

text \<open>
  A session: Streamlit runs \<^verbatim>\<open>main\<close> once per interaction, each time with the widget
  values and the outside world of that moment, and keeps \<^verbatim>\<open>st.session_state\<close> between the
  runs, also after a run that raised. The result is the last state and the calls of all
  runs.
\<close>

fun session ::
  "(('c, 'i, 's, 'e) library \<times> widgets) list \<Rightarrow> ('c, 'i, 's, 'e) session_state option
     \<Rightarrow> ('c, 'i, 's, 'e) session_state option \<times> event list" where
  "session [] st = (st, [])"
| "session ((lib, inp) # runs) st =
     (case main lib inp (st, []) of
        (r, (st', evs)) \<Rightarrow>
          (case session runs st' of (st'', evs') \<Rightarrow> (st'', evs @ evs')))"

section \<open>The repository reader\<close>

text \<open>
  Modelled from the spec: \<^verbatim>\<open>GithubRepositoryReader\<close> is a class of llama-index and is
  missing from the sources, which only construct it with two filters and call
  \<^verbatim>\<open>load_data\<close>. Section 4.1 of the specification says what the fetch does with them: it
  "must exclude files whose extension belongs to a fixed denylist", it "must exclude any
  file located under a directory whose path matches one of the caller-supplied excluded
  directories (exact path-segment match, not substring match)", it fails when the remote
  API is unreachable, the branch does not exist or the credential is invalid, and it
  returns an empty sequence when no file matches. The remote repository is the function
  \<open>remote\<close>: the files of owner, repository and branch, or the failure. A filter of type
  \<open>INCLUDE\<close>, which the sources never pass, keeps the complementary files.
\<close>

definition file_extension :: "string \<Rightarrow> string" where
  "file_extension p =
     (let name = rev (takeWhile (\<lambda>c. c \<noteq> CHR ''/'') (rev p))
      in if CHR ''.'' \<in> set name
         then CHR ''.'' # rev (takeWhile (\<lambda>c. c \<noteq> CHR ''.'') (rev name))
         else [])"

fun join_path :: "string list \<Rightarrow> string" where
  "join_path [] = []"
| "join_path [seg] = seg"
| "join_path (seg # segs) = seg @ CHR ''/'' # join_path segs"

text \<open>The directories a file lies under: of \<^verbatim>\<open>a/b/c.py\<close>, \<^verbatim>\<open>a\<close> and \<^verbatim>\<open>a/b\<close>.\<close>

definition parent_directories :: "string \<Rightarrow> string list" where
  "parent_directories p =
     (let segs = butlast (split_all CHR ''/'' p)
      in map (\<lambda>n. join_path (take n segs)) [1..<Suc (length segs)])"

definition passes_filter :: "FilterType \<Rightarrow> bool \<Rightarrow> bool" where
  "passes_filter ft matches = (case ft of EXCLUDE \<Rightarrow> \<not> matches | INCLUDE \<Rightarrow> matches)"

definition GithubRepositoryReader_model ::
  "(string option \<Rightarrow> string option \<Rightarrow> string \<Rightarrow> exn + document list)
     \<Rightarrow> 'c reader_args \<Rightarrow> string \<Rightarrow> exn + document list" where
  "GithubRepositoryReader_model remote args br =
     (case remote (arg_owner args) (arg_repo args) br of
        Inl e \<Rightarrow> Inl e
      | Inr files \<Rightarrow>
          Inr (filter
                 (\<lambda>d. passes_filter (snd (arg_filter_directories args))
                         (\<exists>dir \<in> set (fst (arg_filter_directories args)).
                            dir \<in> set (parent_directories (file_path d))) \<and>
                      passes_filter (snd (arg_filter_file_extensions args))
                         (file_extension (file_path d)
                            \<in> set (fst (arg_filter_file_extensions args))))
                 files))"

section \<open>A concrete outside world\<close>

text \<open>
  Two repositories exist; every other fetch fails. Indices are the documents they were
  built from, chat engines are named by a string and have both methods, \<^verbatim>\<open>query\<close> and
  \<^verbatim>\<open>chat\<close>, and every URL answers with status 200.
\<close>

definition example_remote :: "string option \<Rightarrow> string option \<Rightarrow> string \<Rightarrow> exn + document list" where
  "example_remote owner repo br =
     (if owner = Some ''octocat'' \<and> repo = Some ''Hello-World'' then
        Inr [\<lparr>file_path = ''README'', doc_text = ''Hello World!''\<rparr>,
             \<lparr>file_path = ''img/logo.png'', doc_text = ''PNG''\<rparr>,
             \<lparr>file_path = ''src/hello.py'', doc_text = ''print(1)''\<rparr>]
      else if owner = Some ''psf'' \<and> repo = Some ''requests'' then
        Inr [\<lparr>file_path = ''setup.py'', doc_text = ''setup()''\<rparr>]
      else Inl (OtherException ''RepositoryAccessError''))"

definition example_lib :: "(unit, document list, document list, string) library" where
  "example_lib =
     \<lparr>Gemini_api = ''gemini-key'',
      github_token = ''github-token'',
      environ_setitem = (\<lambda>_ _. Inr ()),
      Gemini = Inr (),
      GeminiEmbedding = (\<lambda>_ _. Inr ()),
      urlparse = urlparse_py (\<lambda>_. False) (\<lambda>_. False),
      requests_get = (\<lambda>_. Inr 200),
      GithubClient = (\<lambda>_ _. Inr ()),
      GithubRepositoryReader_load_data = GithubRepositoryReader_model example_remote,
      VectorStoreIndex_from_documents = (\<lambda>docs _ _. Inr docs),
      SummaryIndex_from_documents = (\<lambda>docs _ _. Inr docs),
      index_as_chat_engine = (\<lambda>_ _. Inr ''retrieval engine''),
      summary_as_chat_engine = (\<lambda>_ _. Inr ''summary engine''),
      engine_query = (\<lambda>_. Inr (\<lambda>q. Inr ''summary'')),
      engine_chat = (\<lambda>_. Inr (\<lambda>q. Inr (''answer to: '' @ q)))\<rparr>"

definition example_widgets :: "string \<Rightarrow> widgets" where
  "example_widgets url =
     \<lparr>github_repo_link = url, branch = ''master'', exclude_dirs = False,
      excluded_dirs_input = [], question_input = [], submit_question = False\<rparr>"

section \<open>Vocabulary of the properties\<close>

text \<open>A call to the outside, as opposed to a message shown to the user.\<close>

fun is_call :: "event \<Rightarrow> bool" where
  "is_call (St_error _) = False"
| "is_call _ = True"

text \<open>The build operations: the document fetch and the two index constructions.\<close>

fun is_build :: "event \<Rightarrow> bool" where
  "is_build (Load_data _ _ _ _ _) = True"
| "is_build (Build_VectorStoreIndex _ _) = True"
| "is_build (Build_SummaryIndex _ _) = True"
| "is_build _ = False"

text \<open>
  The path the specification asks of a repository URL, in its words: "exactly one
  \<^verbatim>\<open>/\<close> separating owner and repo", after the \<^verbatim>\<open>/\<close> that ends the host.
\<close>

definition spec_owner_repo_path :: "string \<Rightarrow> bool" where
  "spec_owner_repo_path p =
     (case split_all CHR ''/'' p of
        [root, owner, repo] \<Rightarrow> root = [] \<and> owner \<noteq> [] \<and> repo \<noteq> []
      | _ \<Rightarrow> False)"

text \<open>The states of section 4.4 that the session fields distinguish.\<close>

definition indices_built :: "('c, 'i, 's, 'e) session_state \<Rightarrow> bool" where
  "indices_built ss = (index ss \<noteq> None \<and> summary ss \<noteq> None)"

definition ready :: "('c, 'i, 's, 'e) session_state \<Rightarrow> bool" where
  "ready ss =
     (indices_built ss \<and> query_engine ss \<noteq> None \<and> summary_query_engine ss \<noteq> None)"

text \<open>
  A relation between the state before and after a statement holds of the statement when it
  holds of every execution, whatever the result.
\<close>

definition rel_prog :: "('w \<Rightarrow> 'w \<Rightarrow> bool) \<Rightarrow> ('w, 'a) prog \<Rightarrow> bool" where
  "rel_prog R m = (\<forall>w r w'. m w = (r, w') \<longrightarrow> R w w')"

text \<open>
  What no statement of \<^verbatim>\<open>main\<close> undoes: calls are only added, the chat history only grows,
  the client and the engines are assigned only while they are \<^verbatim>\<open>None\<close>, and once both
  indices are there they stay and nothing is fetched or built.
\<close>

definition keeps ::
  "('c, 'i, 's, 'e) session_state \<times> event list
     \<Rightarrow> ('c, 'i, 's, 'e) session_state \<times> event list \<Rightarrow> bool" where
  "keeps w w' =
     (prefix (snd w) (snd w') \<and>
      prefix (chat_history (fst w)) (chat_history (fst w')) \<and>
      (github_client (fst w) \<noteq> None \<longrightarrow> github_client (fst w') = github_client (fst w)) \<and>
      (query_engine (fst w) \<noteq> None \<longrightarrow> query_engine (fst w') = query_engine (fst w)) \<and>
      (summary_query_engine (fst w) \<noteq> None
         \<longrightarrow> summary_query_engine (fst w') = summary_query_engine (fst w)) \<and>
      (indices_built (fst w)
         \<longrightarrow> index (fst w') = index (fst w) \<and> summary (fst w') = summary (fst w) \<and>
             filter is_build (snd w') = filter is_build (snd w)))"

text \<open>The session a run of \<^verbatim>\<open>main\<close> works on once line 118 has been passed.\<close>

definition session_of ::
  "('c, 'i, 's, 'e) session_state option \<Rightarrow> ('c, 'i, 's, 'e) session_state" where
  "session_of st = (case st of None \<Rightarrow> initial_session | Some s \<Rightarrow> s)"

text \<open>A session in which the indices and the engines have been built for one repository.\<close>

definition example_ready :: "(unit, document list, document list, string) session_state" where
  "example_ready =
     \<lparr>github_client = Some (),
      index = Some [\<lparr>file_path = ''README'', doc_text = ''Hello World!''\<rparr>,
                    \<lparr>file_path = ''src/hello.py'', doc_text = ''print(1)''\<rparr>],
      summary = Some [\<lparr>file_path = ''README'', doc_text = ''Hello World!''\<rparr>,
                      \<lparr>file_path = ''src/hello.py'', doc_text = ''print(1)''\<rparr>],
      query_engine = Some ''retrieval engine'',
      summary_query_engine = Some ''summary engine'',
      chat_history = []\<rparr>"

definition ask :: "string \<Rightarrow> string \<Rightarrow> widgets" where
  "ask url q = (example_widgets url)\<lparr>question_input := q, submit_question := True\<rparr>"

text \<open>
  The same world with chat engines as llama-index makes them. Both engines of the session
  are made by \<^verbatim>\<open>as_chat_engine(chat_mode=ChatMode.CONTEXT)\<close> (lines 190 and 192); such an
  engine has the method \<^verbatim>\<open>chat\<close>, which line 229 calls on one of them, and no attribute
  \<^verbatim>\<open>query\<close>, which line 228 asks of the other.
\<close>

definition chat_engine_lib :: "(unit, document list, document list, string) library" where
  "chat_engine_lib = example_lib\<lparr>engine_query := (\<lambda>_. Inl (OtherException ''AttributeError''))\<rparr>"

section \<open>The index builders\<close>

text \<open>
  Modelled from the spec: \<^verbatim>\<open>TokenTextSplitter\<close>, \<^verbatim>\<open>VectorStoreIndex.from_documents\<close> and
  \<^verbatim>\<open>SummaryIndex.from_documents\<close> are classes of llama-index and are missing from the
  sources, which only pass them arguments. Section 4.2 of the specification says what the
  two builds do: the retrieval build "splits each document into overlapping token
  windows before embedding", with a chunk size and a chunk overlap, and the summary
  build "indexes whole documents without chunking"; each fails when its backend is
  unreachable. An index is the list of the text units it holds, each with the path of its
  document and its tokens. A build turns every document into one unit, applies the
  transformations it is given, in order, and hands the units to its backend; with no
  transformation the units are the whole documents. The tokenizer and the backend are
  parameters.
\<close>

record node =
  node_path :: string
  node_tokens :: "string list"

text \<open>
  Modelled from the spec: the "overlapping token windows" of section 4.2, which llama-index's
  \<^verbatim>\<open>TokenTextSplitter\<close>, missing from the sources, is to produce. Each window has \<open>cs\<close>
  tokens, and the next one starts \<open>co\<close> tokens before its end; the last one takes what is
  left. An overlap that is not smaller than the chunk size gives one window.
\<close>

function token_windows :: "nat \<Rightarrow> nat \<Rightarrow> 'a list \<Rightarrow> 'a list list" where
  "token_windows cs co toks =
     (if length toks \<le> cs \<or> cs \<le> co then [toks]
      else take cs toks # token_windows cs co (drop (cs - co) toks))"
  by pat_completeness auto
termination
  by (relation "measure (\<lambda>(cs, co, toks). length toks)") auto

declare token_windows.simps [simp del]

definition document_node :: "(string \<Rightarrow> string list) \<Rightarrow> document \<Rightarrow> node" where
  "document_node tok d = \<lparr>node_path = file_path d, node_tokens = tok (doc_text d)\<rparr>"

fun apply_transformation :: "transformation \<Rightarrow> node list \<Rightarrow> node list" where
  "apply_transformation (TokenTextSplitter cs co) nodes =
     concat (map (\<lambda>n. map (\<lambda>w. \<lparr>node_path = node_path n, node_tokens = w\<rparr>)
                         (token_windows cs co (node_tokens n))) nodes)"

text \<open>
  Modelled from the spec: the build of an index from documents (section 4.2), for
  \<^verbatim>\<open>VectorStoreIndex.from_documents\<close> and \<^verbatim>\<open>SummaryIndex.from_documents\<close>, which are missing
  from the sources.
\<close>

definition from_documents_model ::
  "(string \<Rightarrow> string list) \<Rightarrow> (node list \<Rightarrow> exn + unit) \<Rightarrow> document list \<Rightarrow> bool
     \<Rightarrow> transformation list option \<Rightarrow> exn + node list" where
  "from_documents_model tok backend documents show_progress transformations =
     (let nodes = fold apply_transformation
                    (case transformations of None \<Rightarrow> [] | Some ts \<Rightarrow> ts)
                    (map (document_node tok) documents)
      in case backend nodes of Inl e \<Rightarrow> Inl e | Inr _ \<Rightarrow> Inr nodes)"

definition join_windows :: "nat \<Rightarrow> 'a list list \<Rightarrow> 'a list" where
  "join_windows co ws = (case ws of [] \<Rightarrow> [] | w # rest \<Rightarrow> w @ concat (map (drop co) rest))"

fun overlapping :: "nat \<Rightarrow> nat \<Rightarrow> 'a list list \<Rightarrow> bool" where
  "overlapping cs co (w # w' # ws) =
     (length w = cs \<and> co \<le> length w' \<and> drop (cs - co) w = take co w' \<and>
      overlapping cs co (w' # ws))"
| "overlapping cs co ws = True"

definition overlapping_windows :: "nat \<Rightarrow> nat \<Rightarrow> 'a list \<Rightarrow> 'a list list \<Rightarrow> bool" where
  "overlapping_windows cs co toks ws =
     (ws \<noteq> [] \<and> list_all (\<lambda>w. length w \<le> cs) ws \<and> overlapping cs co ws \<and>
      join_windows co ws = toks)"

section \<open>Vocabulary of the index builds\<close>

text \<open>
  What the session holds after a build as \<^verbatim>\<open>main\<close> asks for it: the vector index the
  library returns for the fetched documents with the token splitter of chunk size 512
  and overlap 128 as the only transformation, and the summary index it returns for the
  same documents with no transformation.
\<close>

definition built_from ::
  "('c, 'i, 's, 'e) library \<Rightarrow> ('c, 'i, 's, 'e) session_state \<Rightarrow> bool" where
  "built_from lib ss =
     (\<exists>args br docs i sm.
        GithubRepositoryReader_load_data lib args br = Inr docs \<and>
        VectorStoreIndex_from_documents lib docs True (Some [TokenTextSplitter 512 128])
          = Inr i \<and>
        SummaryIndex_from_documents lib docs True None = Inr sm \<and>
        index ss = Some i \<and> summary ss = Some sm)"

text \<open>
  Indices that are both there stay; a summary index that appears (it is assigned last,
  line 187) comes with a vector index, both built as above.
\<close>

definition builds_as_claimed ::
  "('c, 'i, 's, 'e) library \<Rightarrow> ('c, 'i, 's, 'e) session_state \<times> event list
     \<Rightarrow> ('c, 'i, 's, 'e) session_state \<times> event list \<Rightarrow> bool" where
  "builds_as_claimed lib w w' =
     ((indices_built (fst w)
         \<longrightarrow> index (fst w') = index (fst w) \<and> summary (fst w') = summary (fst w)) \<and>
      (summary (fst w) = None \<and> summary (fst w') \<noteq> None \<longrightarrow> built_from lib (fst w')))"

text \<open>
  A world with the modelled builders, one token per character, and a document of 600
  tokens beside a short one.
\<close>

definition simple_tokens :: "string \<Rightarrow> string list" where
  "simple_tokens s = map (\<lambda>c. [c]) s"

definition long_document :: document where
  "long_document = \<lparr>file_path = ''notes.txt'', doc_text = replicate 600 CHR ''x''  \<rparr>"

definition modelled_lib :: "(unit, node list, node list, string) library" where
  "modelled_lib =
     \<lparr>Gemini_api = ''gemini-key'',
      github_token = ''github-token'',
      environ_setitem = (\<lambda>_ _. Inr ()),
      Gemini = Inr (),
      GeminiEmbedding = (\<lambda>_ _. Inr ()),
      urlparse = urlparse_py (\<lambda>_. False) (\<lambda>_. False),
      requests_get = (\<lambda>_. Inr 200),
      GithubClient = (\<lambda>_ _. Inr ()),
      GithubRepositoryReader_load_data =
        (\<lambda>_ _. Inr [\<lparr>file_path = ''README'', doc_text = ''Hello World!''\<rparr>, long_document]),
      VectorStoreIndex_from_documents = from_documents_model simple_tokens (\<lambda>_. Inr ()),
      SummaryIndex_from_documents = from_documents_model simple_tokens (\<lambda>_. Inr ()),
      index_as_chat_engine = (\<lambda>_ _. Inr ''retrieval engine''),
      summary_as_chat_engine = (\<lambda>_ _. Inr ''summary engine''),
      engine_query = (\<lambda>_. Inl (OtherException ''AttributeError'')),
      engine_chat = (\<lambda>_. Inr (\<lambda>q. Inr (''answer to: '' @ q)))\<rparr>"

definition modelled_built :: "(unit, node list, node list, string) session_state" where
  "modelled_built =
     \<lparr>github_client = Some (),
      index = Some [\<lparr>node_path = ''README'', node_tokens = simple_tokens ''Hello World!''\<rparr>,
                    \<lparr>node_path = ''notes.txt'', node_tokens = replicate 512 ''x''\<rparr>,
                    \<lparr>node_path = ''notes.txt'', node_tokens = replicate 216 ''x''\<rparr>],
      summary = Some [\<lparr>node_path = ''README'', node_tokens = simple_tokens ''Hello World!''\<rparr>,
                      \<lparr>node_path = ''notes.txt'', node_tokens = replicate 600 ''x''\<rparr>],
      query_engine = Some ''retrieval engine'',
      summary_query_engine = Some ''summary engine'',
      chat_history = []\<rparr>"

definition modelled_events :: "event list" where
  "modelled_events =
     [Requests_get ''https://github.com/octocat/Hello-World'', New_GithubClient,
      Load_data (Some ''octocat'') (Some ''Hello-World'') ([], EXCLUDE)
        ([''.png'', ''.jpg'', ''.jpeg'', ''.gif'', ''.svg'', ''.ico'', ''.pdf'', ''.csv''],
         EXCLUDE) ''master'',
      Build_VectorStoreIndex
        [\<lparr>file_path = ''README'', doc_text = ''Hello World!''\<rparr>, long_document]
        (Some [TokenTextSplitter 512 128]),
      Build_SummaryIndex
        [\<lparr>file_path = ''README'', doc_text = ''Hello World!''\<rparr>, long_document] None,
      Index_as_chat_engine, Summary_as_chat_engine]"

section \<open>Properties\<close>

lemmas prog_defs = returnE_def raiseE_def liftE_def bindE_def try_except_ValueError_def
  emit_def call_def get_session_def modify_session_def executor_submit_def future_result_def

subsection \<open>Composition of statements\<close>

lemma rel_progD: "rel_prog R m \<Longrightarrow> m w = (r, w') \<Longrightarrow> R w w'"
  by (simp add: rel_prog_def)

lemma rel_prog_returnE: "reflp R \<Longrightarrow> rel_prog R (returnE x)"
  by (auto simp: rel_prog_def returnE_def reflp_def)

lemma rel_prog_raiseE: "reflp R \<Longrightarrow> rel_prog R (raiseE x)"
  by (auto simp: rel_prog_def raiseE_def reflp_def)

lemma rel_prog_liftE: "reflp R \<Longrightarrow> rel_prog R (liftE x)"
  by (auto simp: rel_prog_def liftE_def reflp_def)

lemma rel_prog_bindE:
  assumes "transp R" "rel_prog R m" "\<And>x. rel_prog R (f x)"
  shows "rel_prog R (bindE m f)"
  unfolding rel_prog_def
proof (intro allI impI)
  fix w r w'
  assume run: "bindE m f w = (r, w')"
  obtain r1 w1 where m: "m w = (r1, w1)" by (cases "m w")
  from assms(2) m have R1: "R w w1" by (rule rel_progD)
  show "R w w'"
  proof (cases r1)
    case (Inl e)
    with run m have "w' = w1" by (simp add: bindE_def)
    with R1 show ?thesis by simp
  next
    case (Inr x)
    with run m have "f x w1 = (r, w')" by (simp add: bindE_def)
    with assms(3) have "R w1 w'" by (rule rel_progD)
    with R1 assms(1) show ?thesis by (blast dest: transpD)
  qed
qed

lemma rel_prog_try:
  assumes "transp R" "rel_prog R m" "rel_prog R h"
  shows "rel_prog R (try_except_ValueError m h)"
  unfolding rel_prog_def
proof (intro allI impI)
  fix w r w'
  assume run: "try_except_ValueError m h w = (r, w')"
  obtain r1 w1 where m: "m w = (r1, w1)" by (cases "m w")
  from assms(2) m have R1: "R w w1" by (rule rel_progD)
  show "R w w'"
  proof (cases "r1 = Inl ValueError")
    case True
    with run m have "h w1 = (r, w')" by (simp add: try_except_ValueError_def)
    with assms(3) have "R w1 w'" by (rule rel_progD)
    with R1 assms(1) show ?thesis by (blast dest: transpD)
  next
    case False
    with run m have "w' = w1"
      by (auto simp: try_except_ValueError_def split: sum.splits exn.splits)
    with R1 show ?thesis by simp
  qed
qed

lemma rel_prog_submit: "rel_prog R m \<Longrightarrow> rel_prog R (executor_submit m)"
  by (auto simp: rel_prog_def executor_submit_def split: prod.splits)

lemma rel_prog_if:
  "(c \<Longrightarrow> rel_prog R a) \<Longrightarrow> (\<not> c \<Longrightarrow> rel_prog R b) \<Longrightarrow> rel_prog R (if c then a else b)"
  by simp

lemma rel_prog_case_prod: "(\<And>a b. rel_prog R (f a b)) \<Longrightarrow> rel_prog R (case_prod f x)"
  by (cases x) simp

subsection \<open>What a run keeps\<close>

lemma reflp_keeps: "reflp keeps"
  by (simp add: reflp_def keeps_def)

lemma transp_keeps:
  "transp (keeps :: ('c, 'i, 's, 'e) session_state \<times> event list \<Rightarrow> _)"
proof (rule transpI)
  fix x y z
  assume xy: "keeps x y" and yz: "keeps y z"
  have p1: "prefix (snd x) (snd z)"
    using xy yz by (auto simp: keeps_def intro: prefix_order.order_trans)
  have p2: "prefix (chat_history (fst x)) (chat_history (fst z))"
    using xy yz by (auto simp: keeps_def intro: prefix_order.order_trans)
  show "keeps x z"
    using xy yz p1 p2 by (simp add: keeps_def indices_built_def)
qed

lemma keeps_St_error: "rel_prog keeps (emit (St_error msg))"
  by (auto simp: rel_prog_def keeps_def emit_def)

lemma keeps_make_client: "rel_prog keeps (make_client lib)"
  unfolding rel_prog_def keeps_def
  by (auto simp: make_client_def prog_defs indices_built_def split: sum.splits if_splits)

lemma keeps_check: "rel_prog keeps (check_github_repo_exists lib url)"
  unfolding rel_prog_def keeps_def
  by (auto simp: check_github_repo_exists_def prog_defs indices_built_def Let_def
      split: sum.splits if_splits exn.splits prod.splits)


lemma keeps_process_data: "rel_prog keeps (process_data lib user repo dirs br ts)"
  unfolding rel_prog_def keeps_def
  by (auto simp: process_data_def load_documents_def create_index_def create_summary_def
      prog_defs indices_built_def Let_def
      split: sum.splits if_splits prod.splits)


lemma keeps_make_engines: "rel_prog keeps (make_engines lib)"
  unfolding rel_prog_def keeps_def
  by (auto simp: make_engines_def prog_defs indices_built_def
      split: sum.splits if_splits prod.splits option.splits)

lemma keeps_answer_question: "rel_prog keeps (answer_question lib inp)"
  unfolding rel_prog_def keeps_def
  by (auto simp: answer_question_def prog_defs indices_built_def
      split: sum.splits if_splits prod.splits option.splits)


lemma keeps_main_body: "rel_prog keeps (main_body lib inp)"
  unfolding main_body_def
  by (intro rel_prog_if rel_prog_bindE rel_prog_case_prod rel_prog_liftE rel_prog_returnE
      transp_keeps reflp_keeps keeps_St_error keeps_make_client keeps_check
      keeps_process_data keeps_make_engines keeps_answer_question)

subsection \<open>The URL functions\<close>

lemma unpack2_split1_no_sep: "c \<notin> set s \<Longrightarrow> unpack2 (split1 c s) = Inl ValueError"
  by (simp add: split1_def)

text \<open>
  C10. When the stripped path of the URL has no \<^verbatim>\<open>/\<close>, \<^verbatim>\<open>check_github_repo_exists\<close>
  returns \<^verbatim>\<open>False\<close> and does not raise: the \<open>ValueError\<close> of the failed unpacking is caught.
  The state is returned as it was, so no request has been sent either.
\<close>

theorem check_github_repo_exists_no_separator:
  assumes "urlparse lib url = Inr parsed"
    and "CHR ''/'' \<notin> set (strip_chars ''/'' (path parsed))"
  shows "check_github_repo_exists lib url w = (Inr False, w)"
  using assms
  by (simp add: check_github_repo_exists_def prog_defs unpack2_split1_no_sep)

theorem check_github_repo_exists_no_separator_witness:
  "urlparse example_lib ''https://github.com/a'' =
     Inr \<lparr>scheme = ''https'', netloc = ''github.com'', path = ''/a'', params = [],
          query = [], fragment = []\<rparr> \<and>
   CHR ''/'' \<notin> set (strip_chars ''/'' ''/a'') \<and>
   check_github_repo_exists example_lib ''https://github.com/a'' (initial_session, [])
     = (Inr False, (initial_session, []))"
proof -
  have h1: "urlparse example_lib ''https://github.com/a'' =
     Inr \<lparr>scheme = ''https'', netloc = ''github.com'', path = ''/a'', params = [],
          query = [], fragment = []\<rparr>"
    by code_simp
  have h2: "CHR ''/'' \<notin> set (strip_chars ''/'' ''/a'')"
    by (simp add: strip_chars_def)
  show ?thesis
    using check_github_repo_exists_no_separator [OF h1, of "(initial_session, [])"] h1 h2
    by simp
qed

lemma urlparse_example_abc:
  "urlparse example_lib ''https://github.com/a/b/c'' =
     Inr \<lparr>scheme = ''https'', netloc = ''github.com'', path = ''/a/b/c'', params = [],
          query = [], fragment = []\<rparr>"
  by code_simp

text \<open>
  C1, as the code has it. \<^verbatim>\<open>is_valid_github_url\<close> tests the scheme, the host and the first
  character of the path, and nothing else: it returns \<^verbatim>\<open>False\<close> for every URL whose scheme
  is neither \<^verbatim>\<open>http\<close> nor \<^verbatim>\<open>https\<close>, whose host is not exactly \<^verbatim>\<open>github.com\<close>, or whose path
  does not start with \<^verbatim>\<open>/\<close>, and \<^verbatim>\<open>True\<close> for every other URL, however many separators the
  path has.
\<close>

theorem is_valid_github_url_checks:
  assumes "urlparse lib url = Inr parsed"
  shows "is_valid_github_url lib url =
           Inr ((scheme parsed = ''http'' \<or> scheme parsed = ''https'') \<and>
                netloc parsed = ''github.com'' \<and>
                prefix ''/'' (path parsed))"
  using assms by (simp add: is_valid_github_url_def)

theorem is_valid_github_url_checks_witness:
  "urlparse example_lib ''https://github.com/a/b/c'' =
     Inr \<lparr>scheme = ''https'', netloc = ''github.com'', path = ''/a/b/c'', params = [],
          query = [], fragment = []\<rparr> \<and>
   is_valid_github_url example_lib ''https://github.com/a/b/c'' = Inr True"
  using is_valid_github_url_checks [OF urlparse_example_abc] urlparse_example_abc
  by simp

text \<open>
  C1 as stated fails: the path \<^verbatim>\<open>/a/b/c\<close> is not an owner and a repository separated by
  one \<^verbatim>\<open>/\<close>, and the URL is accepted.
\<close>

theorem is_valid_github_url_counterexample:
  "urlparse example_lib ''https://github.com/a/b/c'' =
     Inr \<lparr>scheme = ''https'', netloc = ''github.com'', path = ''/a/b/c'', params = [],
          query = [], fragment = []\<rparr> \<and>
   \<not> spec_owner_repo_path ''/a/b/c'' \<and>
   is_valid_github_url example_lib ''https://github.com/a/b/c'' = Inr True"
  by (simp add: urlparse_example_abc is_valid_github_url_def spec_owner_repo_path_def)

text \<open>
  C9. The URL \<^verbatim>\<open>https://github.com/a/b/c\<close> passes \<^verbatim>\<open>is_valid_github_url\<close>,
  \<^verbatim>\<open>extract_github_details\<close> returns \<^verbatim>\<open>(None, None)\<close> for it, and when the existence check
  answers 200 the run of \<^verbatim>\<open>main\<close> calls the reader with owner and repository both
  \<^verbatim>\<open>None\<close>.
\<close>

theorem validated_url_without_owner_and_repo:
  "is_valid_github_url example_lib ''https://github.com/a/b/c'' = Inr True \<and>
   extract_github_details example_lib ''https://github.com/a/b/c'' = Inr (None, None) \<and>
   main example_lib (example_widgets ''https://github.com/a/b/c'') (None, []) =
     (Inl (OtherException ''RepositoryAccessError''),
      Some (initial_session\<lparr>github_client := Some ()\<rparr>),
      [Requests_get ''https://github.com/a/b/c'', New_GithubClient,
       Load_data None None ([], EXCLUDE)
         ([''.png'', ''.jpg'', ''.jpeg'', ''.gif'', ''.svg'', ''.ico'', ''.pdf'', ''.csv''],
          EXCLUDE) ''master''])"
  by code_simp

subsection \<open>Runs of \<^verbatim>\<open>main\<close>\<close>

lemma configure_cases:
  "configure lib (st, tr) = (r, (st', tr')) \<Longrightarrow>
     st' = st \<and> (r = Inr True \<longrightarrow> tr' = tr) \<and> (tr' = tr \<or> (\<exists>msg. tr' = tr @ [St_error msg]))"
  by (auto simp: configure_def prog_defs split: sum.splits exn.splits if_splits)

lemma main_cases:
  assumes "main lib inp (st, tr) = (r, (st', tr'))"
  shows "(st' = st \<and> (tr' = tr \<or> (\<exists>msg. tr' = tr @ [St_error msg]))) \<or>
         (\<exists>ss'. st' = Some ss' \<and> main_body lib inp (session_of st, tr) = (r, (ss', tr')))"
proof -
  obtain c st1 tr1 where c: "configure lib (st, tr) = (c, (st1, tr1))"
    by (metis surj_pair)
  note cc = configure_cases [OF c]
  show ?thesis
  proof (cases c)
    case (Inl e)
    with assms c cc show ?thesis by (auto simp: main_def)
  next
    case (Inr go_on)
    show ?thesis
    proof (cases go_on)
      case False
      with Inr assms c cc show ?thesis by (auto simp: main_def)
    next
      case True
      with Inr assms c cc show ?thesis
        by (auto simp: main_def session_of_def Let_def split: prod.splits)
    qed
  qed
qed

lemma main_keeps:
  assumes "main lib inp (Some ss, tr) = (r, (st', tr'))"
  shows "\<exists>ss'. st' = Some ss' \<and> keeps (ss, tr) (ss', tr')"
  using main_cases [OF assms]
proof
  assume "st' = Some ss \<and> (tr' = tr \<or> (\<exists>msg. tr' = tr @ [St_error msg]))"
  then show ?thesis by (auto simp: keeps_def)
next
  assume "\<exists>ss'. st' = Some ss' \<and>
            main_body lib inp (session_of (Some ss), tr) = (r, (ss', tr'))"
  then obtain ss' where "st' = Some ss'"
    and "main_body lib inp (ss, tr) = (r, (ss', tr'))"
    by (auto simp: session_of_def)
  with rel_progD [OF keeps_main_body] show ?thesis by blast
qed


lemma main_body_invalid:
  assumes "is_valid_github_url lib (github_repo_link inp) \<noteq> Inr True"
    and "main_body lib inp (ss, tr) = (r, (ss', tr'))"
  shows "ss' = ss \<and> (tr' = tr \<or> (\<exists>msg. tr' = tr @ [St_error msg]))"
proof (cases "is_valid_github_url lib (github_repo_link inp)")
  case (Inl e)
  with assms(2) show ?thesis
    by (auto simp: main_body_def bindE_def liftE_def returnE_def split: if_splits)
next
  case (Inr valid)
  with assms(1) have "\<not> valid" by simp
  with Inr assms(2) show ?thesis
    by (auto simp: main_body_def bindE_def liftE_def returnE_def emit_def split: if_splits)
qed

lemma urlparse_example_not_github:
  "urlparse example_lib ''https://not-github.com/foo/bar'' =
     Inr \<lparr>scheme = ''https'', netloc = ''not-github.com'', path = ''/foo/bar'', params = [],
          query = [], fragment = []\<rparr>"
  by code_simp

text \<open>
  C7. When \<^verbatim>\<open>is_valid_github_url\<close> does not return \<^verbatim>\<open>True\<close> for the link (it returns
  \<^verbatim>\<open>False\<close>, or \<^verbatim>\<open>urlparse\<close> raises), the run of \<^verbatim>\<open>main\<close> makes no call to the outside at
  all: no existence check, and nothing after it. So every request of the existence check
  is for a link that has passed validation.
\<close>

theorem invalid_url_no_call:
  assumes "is_valid_github_url lib (github_repo_link inp) \<noteq> Inr True"
  shows "filter is_call (snd (snd (main lib inp (st, [])))) = []"
proof -
  obtain r st' tr' where run: "main lib inp (st, []) = (r, (st', tr'))"
    by (metis surj_pair)
  from main_cases [OF run] have "tr' = [] \<or> (\<exists>msg. tr' = [St_error msg])"
    using main_body_invalid [OF assms] by fastforce
  with run show ?thesis by auto
qed

theorem invalid_url_no_call_witness:
  "is_valid_github_url example_lib
     (github_repo_link (example_widgets ''https://not-github.com/foo/bar'')) \<noteq> Inr True \<and>
   filter is_call
     (snd (snd (main example_lib (example_widgets ''https://not-github.com/foo/bar'')
                  (None, [])))) = []"
proof -
  have h: "is_valid_github_url example_lib
     (github_repo_link (example_widgets ''https://not-github.com/foo/bar'')) \<noteq> Inr True"
    by (simp add: example_widgets_def is_valid_github_url_def urlparse_example_not_github)
  show ?thesis
    using invalid_url_no_call [OF h, of None] h by simp
qed

subsection \<open>Sessions whose indices are built\<close>

lemma ready_example_ready: "ready example_ready"
  by (simp add: ready_def indices_built_def example_ready_def)

lemma example_other_url_run:
  "main example_lib (example_widgets ''https://github.com/psf/requests'')
     (Some example_ready, []) =
   (Inr (), Some example_ready, [Requests_get ''https://github.com/psf/requests''])"
  by code_simp

text \<open>
  C2 as stated fails. The first run builds the indices and engines for
  \<^verbatim>\<open>octocat/Hello-World\<close>; the session is then Ready. A run with the link of another
  repository leaves the session as it is, indices included, and fetches and builds
  nothing: the only call is the existence check.
\<close>

theorem ready_session_other_url_counterexample:
  "main example_lib (example_widgets ''https://github.com/octocat/Hello-World'') (None, []) =
     (Inr (), Some example_ready,
      [Requests_get ''https://github.com/octocat/Hello-World'', New_GithubClient,
       Load_data (Some ''octocat'') (Some ''Hello-World'') ([], EXCLUDE)
         ([''.png'', ''.jpg'', ''.jpeg'', ''.gif'', ''.svg'', ''.ico'', ''.pdf'', ''.csv''],
          EXCLUDE) ''master'',
       Build_VectorStoreIndex
         [\<lparr>file_path = ''README'', doc_text = ''Hello World!''\<rparr>,
          \<lparr>file_path = ''src/hello.py'', doc_text = ''print(1)''\<rparr>]
         (Some [TokenTextSplitter 512 128]),
       Build_SummaryIndex
         [\<lparr>file_path = ''README'', doc_text = ''Hello World!''\<rparr>,
          \<lparr>file_path = ''src/hello.py'', doc_text = ''print(1)''\<rparr>] None,
       Index_as_chat_engine, Summary_as_chat_engine]) \<and>
   ready example_ready \<and>
   example_ready \<noteq> initial_session \<and>
   main example_lib (example_widgets ''https://github.com/psf/requests'')
     (Some example_ready, []) =
   (Inr (), Some example_ready, [Requests_get ''https://github.com/psf/requests''])"
  by code_simp

text \<open>
  C2, as the code has it. \<^verbatim>\<open>main\<close> never assigns \<^verbatim>\<open>None\<close> to a session field, and it
  builds only while \<^verbatim>\<open>index\<close> or \<^verbatim>\<open>summary\<close> is \<^verbatim>\<open>None\<close>. So a run on a Ready session,
  whatever link, branch and exclusions the user supplies, leaves the session Ready with
  the same indices and the same engines and makes no fetch and no index build.
\<close>

theorem ready_session_is_kept:
  assumes "ready ss" and "main lib inp (Some ss, []) = (r, (st', evs))"
  shows "\<exists>ss'. st' = Some ss' \<and> ready ss' \<and> index ss' = index ss \<and> summary ss' = summary ss \<and>
           query_engine ss' = query_engine ss \<and>
           summary_query_engine ss' = summary_query_engine ss \<and>
           filter is_build evs = []"
  using main_keeps [OF assms(2)] assms(1)
  by (auto simp: keeps_def ready_def indices_built_def)

theorem ready_session_is_kept_witness:
  "ready example_ready \<and>
   main example_lib (example_widgets ''https://github.com/psf/requests'')
     (Some example_ready, []) =
   (Inr (), Some example_ready, [Requests_get ''https://github.com/psf/requests'']) \<and>
   (\<exists>ss'. Some example_ready = Some ss' \<and> ready ss' \<and> index ss' = index example_ready \<and>
      summary ss' = summary example_ready \<and>
      query_engine ss' = query_engine example_ready \<and>
      summary_query_engine ss' = summary_query_engine example_ready \<and>
      filter is_build [Requests_get ''https://github.com/psf/requests''] = [])"
  using ready_session_is_kept [OF ready_example_ready example_other_url_run]
    ready_example_ready example_other_url_run
  by simp




subsection \<open>Answering a question\<close>

text \<open>
  What lines 225 to 238 do with a submitted question, case by case. Whenever a lookup or
  an engine call raises, the session state is the one before; an entry is appended only
  when both lookups and both calls return.
\<close>

lemma answer_question_cases:
  assumes "submit_question inp" and "question_input inp = q" and "q \<noteq> []"
    and "summary_query_engine ss = Some se" and "query_engine ss = Some qe"
  shows "answer_question lib inp (ss, tr) =
     (case engine_query lib se of
        Inl e \<Rightarrow> (Inl e, (ss, tr))
      | Inr query_method \<Rightarrow>
          (case engine_chat lib qe of
             Inl e \<Rightarrow> (Inl e, (ss, tr @ [Engine_query q]))
           | Inr chat_method \<Rightarrow>
               (case query_method q of
                  Inl e \<Rightarrow> (Inl e, (ss, tr @ [Engine_query q, Engine_chat q]))
                | Inr summary_response \<Rightarrow>
                    (case chat_method q of
                       Inl e \<Rightarrow> (Inl e, (ss, tr @ [Engine_query q, Engine_chat q]))
                     | Inr answer \<Rightarrow>
                         (Inr (),
                          (ss\<lparr>chat_history := chat_history ss @
                                [\<lparr>question = q, achat_response = answer\<rparr>]\<rparr>,
                           tr @ [Engine_query q, Engine_chat q]))))))"
  using assms
  by (simp add: answer_question_def prog_defs split: sum.splits)

text \<open>
  C3. With the engines that lines 190 and 192 build, the question is not sent to both
  engines: the lookup of \<^verbatim>\<open>query\<close> at line 228 raises \<^verbatim>\<open>AttributeError\<close> before the first
  task is submitted. No engine is called, the run of \<^verbatim>\<open>main\<close> ends with that exception,
  and the chat history is as before.
\<close>

theorem question_not_dispatched:
  "ready example_ready \<and>
   answer_question chat_engine_lib
     (ask ''https://github.com/octocat/Hello-World'' ''What does this repository do?'')
     (example_ready, []) =
   (Inl (OtherException ''AttributeError''), (example_ready, [])) \<and>
   main chat_engine_lib
     (ask ''https://github.com/octocat/Hello-World'' ''What does this repository do?'')
     (Some example_ready, []) =
   (Inl (OtherException ''AttributeError''), Some example_ready,
    [Requests_get ''https://github.com/octocat/Hello-World''])"
  by code_simp

subsection \<open>Fetching documents\<close>

text \<open>
  C5. With the reader of section 4.1, for every remote repository and every list of
  excluded directories, no document returned by \<^verbatim>\<open>load_documents\<close> has an extension of
  the denylist: the function passes the eight extensions as an \<open>EXCLUDE\<close> filter, and the
  directory filter removes files, it adds none.
\<close>

theorem load_documents_excludes_denylist:
  assumes "load_documents
             (lib\<lparr>GithubRepositoryReader_load_data := GithubRepositoryReader_model remote\<rparr>)
             client user repo excluded_dirs br w = (Inr docs, w')"
    and "d \<in> set docs"
  shows "file_extension (file_path d) \<notin>
           {''.png'', ''.jpg'', ''.jpeg'', ''.gif'', ''.svg'', ''.ico'', ''.pdf'', ''.csv''}"
proof -
  obtain ss tr where w: "w = (ss, tr)" by (cases w)
  from assms(1) w obtain files where
    docs: "docs = filter
       (\<lambda>d. passes_filter EXCLUDE (\<exists>dir \<in> set excluded_dirs.
                dir \<in> set (parent_directories (file_path d))) \<and>
            passes_filter EXCLUDE
              (file_extension (file_path d) \<in>
                 set [''.png'', ''.jpg'', ''.jpeg'', ''.gif'', ''.svg'', ''.ico'', ''.pdf'',
                      ''.csv''])) files"
    by (auto simp: load_documents_def prog_defs GithubRepositoryReader_model_def Let_def
        split: sum.splits)
  with assms(2) have "passes_filter EXCLUDE
              (file_extension (file_path d) \<in>
                 set [''.png'', ''.jpg'', ''.jpeg'', ''.gif'', ''.svg'', ''.ico'', ''.pdf'',
                      ''.csv''])"
    by simp
  then show ?thesis by (simp add: passes_filter_def)
qed

lemma example_load_documents:
  "load_documents
     (example_lib\<lparr>GithubRepositoryReader_load_data :=
        GithubRepositoryReader_model example_remote\<rparr>)
     (Some ()) (Some ''octocat'') (Some ''Hello-World'') [''docs''] ''master''
     (initial_session, []) =
   (Inr [\<lparr>file_path = ''README'', doc_text = ''Hello World!''\<rparr>,
         \<lparr>file_path = ''src/hello.py'', doc_text = ''print(1)''\<rparr>],
    (initial_session,
     [Load_data (Some ''octocat'') (Some ''Hello-World'') ([''docs''], EXCLUDE)
        ([''.png'', ''.jpg'', ''.jpeg'', ''.gif'', ''.svg'', ''.ico'', ''.pdf'', ''.csv''],
         EXCLUDE) ''master'']))"
  by code_simp

theorem load_documents_excludes_denylist_witness:
  "load_documents
     (example_lib\<lparr>GithubRepositoryReader_load_data :=
        GithubRepositoryReader_model example_remote\<rparr>)
     (Some ()) (Some ''octocat'') (Some ''Hello-World'') [''docs''] ''master''
     (initial_session, []) =
   (Inr [\<lparr>file_path = ''README'', doc_text = ''Hello World!''\<rparr>,
         \<lparr>file_path = ''src/hello.py'', doc_text = ''print(1)''\<rparr>],
    (initial_session,
     [Load_data (Some ''octocat'') (Some ''Hello-World'') ([''docs''], EXCLUDE)
        ([''.png'', ''.jpg'', ''.jpeg'', ''.gif'', ''.svg'', ''.ico'', ''.pdf'', ''.csv''],
         EXCLUDE) ''master''])) \<and>
   \<lparr>file_path = ''src/hello.py'', doc_text = ''print(1)''\<rparr> \<in>
     set [\<lparr>file_path = ''README'', doc_text = ''Hello World!''\<rparr>,
          \<lparr>file_path = ''src/hello.py'', doc_text = ''print(1)''\<rparr>] \<and>
   file_extension ''src/hello.py'' \<notin>
     {''.png'', ''.jpg'', ''.jpeg'', ''.gif'', ''.svg'', ''.ico'', ''.pdf'', ''.csv''}"
proof -
  have m: "\<lparr>file_path = ''src/hello.py'', doc_text = ''print(1)''\<rparr> \<in>
     set [\<lparr>file_path = ''README'', doc_text = ''Hello World!''\<rparr>,
          \<lparr>file_path = ''src/hello.py'', doc_text = ''print(1)''\<rparr>]"
    by simp
  show ?thesis
    using load_documents_excludes_denylist [OF example_load_documents m]
      example_load_documents m
    by simp
qed

subsection \<open>Building the indices\<close>

lemma token_windows_Cons:
  "co < cs \<Longrightarrow> \<exists>rest. token_windows cs co toks = take cs toks # rest"
  by (subst token_windows.simps) auto

lemma token_windows_bound:
  "co < cs \<Longrightarrow> list_all (\<lambda>w. length w \<le> cs) (token_windows cs co toks)"
proof (induction cs co toks rule: token_windows.induct)
  case (1 cs co toks)
  show ?case
  proof (cases "length toks \<le> cs \<or> cs \<le> co")
    case True
    with "1.prems" show ?thesis by (subst token_windows.simps) auto
  next
    case False
    with "1.IH" "1.prems" show ?thesis by (subst token_windows.simps) auto
  qed
qed

lemma token_windows_overlapping:
  "co < cs \<Longrightarrow> overlapping cs co (token_windows cs co toks)"
proof (induction cs co toks rule: token_windows.induct)
  case (1 cs co toks)
  show ?case
  proof (cases "length toks \<le> cs \<or> cs \<le> co")
    case True
    then show ?thesis by (subst token_windows.simps) auto
  next
    case False
    let ?toks' = "drop (cs - co) toks"
    from token_windows_Cons [OF "1.prems", of ?toks'] obtain rest
      where r: "token_windows cs co ?toks' = take cs ?toks' # rest" by blast
    from False "1.prems" have len: "co \<le> length (take cs ?toks')" by auto
    have ov: "drop (cs - co) (take cs toks) = take co (take cs ?toks')"
      using "1.prems" by (simp add: drop_take min_def)
    from "1.IH" [OF False "1.prems"] r have "overlapping cs co (take cs ?toks' # rest)"
      by simp
    with False len ov r show ?thesis
      by (subst token_windows.simps) auto
  qed
qed

lemma token_windows_join:
  "co < cs \<Longrightarrow> join_windows co (token_windows cs co toks) = toks"
proof (induction cs co toks rule: token_windows.induct)
  case (1 cs co toks)
  show ?case
  proof (cases "length toks \<le> cs \<or> cs \<le> co")
    case True
    then show ?thesis by (subst token_windows.simps) (auto simp: join_windows_def)
  next
    case False
    let ?toks' = "drop (cs - co) toks"
    from token_windows_Cons [OF "1.prems", of ?toks'] obtain rest
      where r: "token_windows cs co ?toks' = take cs ?toks' # rest" by blast
    from "1.IH" [OF False "1.prems"] r
    have j: "take cs ?toks' @ concat (map (drop co) rest) = ?toks'"
      by (simp add: join_windows_def)
    from False "1.prems" have len: "co \<le> length (take cs ?toks')" by auto
    have z: "co - length (take cs ?toks') = 0"
      using len by (simp only: diff_is_0_eq)
    have "drop co (take cs ?toks') @ concat (map (drop co) rest) =
          drop co (take cs ?toks' @ concat (map (drop co) rest))"
      by (simp only: drop_append z drop_0)
    also have "\<dots> = drop co ?toks'" by (simp only: j)
    also have "\<dots> = drop cs toks" using "1.prems" by simp
    finally have "take cs toks @ drop co (take cs ?toks') @ concat (map (drop co) rest) = toks"
      by simp
    with False r show ?thesis
      by (subst token_windows.simps) (simp add: join_windows_def)
  qed
qed

lemma token_windows_overlapping_windows:
  "co < cs \<Longrightarrow> overlapping_windows cs co toks (token_windows cs co toks)"
  using token_windows_Cons [of co cs toks]
  by (auto simp: overlapping_windows_def token_windows_bound token_windows_overlapping
      token_windows_join)

lemma reflp_builds: "reflp (builds_as_claimed lib)"
  by (auto simp: reflp_def builds_as_claimed_def)

lemma transp_builds: "transp (builds_as_claimed lib)"
proof (rule transpI)
  fix x y z
  assume xy: "builds_as_claimed lib x y" and yz: "builds_as_claimed lib y z"
  show "builds_as_claimed lib x z"
  proof (cases "summary (fst y) = None")
    case True
    with xy yz show ?thesis
      by (auto simp: builds_as_claimed_def indices_built_def)
  next
    case False
    with xy yz show ?thesis
      by (auto simp: builds_as_claimed_def built_from_def indices_built_def)
  qed
qed

lemma same_indices_builds:
  "index (fst w') = index (fst w) \<Longrightarrow> summary (fst w') = summary (fst w)
     \<Longrightarrow> builds_as_claimed lib w w'"
  by (auto simp: builds_as_claimed_def indices_built_def)

lemma builds_St_error: "rel_prog (builds_as_claimed lib) (emit (St_error msg))"
  by (auto simp: rel_prog_def emit_def intro!: same_indices_builds)

lemma builds_make_client: "rel_prog (builds_as_claimed lib) (make_client lib')"
  unfolding rel_prog_def
  by (auto simp: make_client_def prog_defs split: sum.splits if_splits
      intro!: same_indices_builds)

lemma builds_check: "rel_prog (builds_as_claimed lib) (check_github_repo_exists lib' url)"
  unfolding rel_prog_def
  by (auto simp: check_github_repo_exists_def prog_defs Let_def
      split: sum.splits if_splits exn.splits prod.splits intro!: same_indices_builds)

lemma builds_make_engines: "rel_prog (builds_as_claimed lib) (make_engines lib')"
  unfolding rel_prog_def
  by (auto simp: make_engines_def prog_defs
      split: sum.splits if_splits prod.splits option.splits intro!: same_indices_builds)

lemma builds_answer_question: "rel_prog (builds_as_claimed lib) (answer_question lib' inp)"
  unfolding rel_prog_def
  by (auto simp: answer_question_def prog_defs
      split: sum.splits if_splits prod.splits option.splits intro!: same_indices_builds)

lemma builds_process_data:
  "rel_prog (builds_as_claimed lib)
     (process_data lib user repo dirs br [TokenTextSplitter 512 128])"
  unfolding rel_prog_def builds_as_claimed_def built_from_def
  by (auto simp: process_data_def load_documents_def create_index_def create_summary_def
      prog_defs indices_built_def Let_def
      split: sum.splits if_splits prod.splits)

lemma builds_main_body: "rel_prog (builds_as_claimed lib) (main_body lib inp)"
  unfolding main_body_def
  by (intro rel_prog_if rel_prog_bindE rel_prog_case_prod rel_prog_liftE rel_prog_returnE
      transp_builds reflp_builds builds_St_error builds_make_client builds_check
      builds_process_data builds_make_engines builds_answer_question)

lemma main_built_from:
  assumes "main lib inp (st, []) = (r, (Some ss', evs))"
    and "summary (session_of st) = None" and "indices_built ss'"
  shows "built_from lib ss'"
  using main_cases [OF assms(1)]
proof
  assume "Some ss' = st \<and> (evs = [] \<or> (\<exists>msg. evs = [] @ [St_error msg]))"
  with assms(2,3) show ?thesis by (auto simp: session_of_def indices_built_def)
next
  assume "\<exists>ss''. Some ss' = Some ss'' \<and>
            main_body lib inp (session_of st, []) = (r, (ss'', evs))"
  then have "main_body lib inp (session_of st, []) = (r, (ss', evs))" by simp
  from rel_progD [OF builds_main_body this] assms(2,3) show ?thesis
    by (auto simp: builds_as_claimed_def indices_built_def)
qed

lemma modelled_run:
  "main modelled_lib (example_widgets ''https://github.com/octocat/Hello-World'') (None, []) =
     (Inr (), Some modelled_built, modelled_events)"
  by code_simp

lemma long_document_windows:
  "token_windows 512 128 (replicate 600 t) = [replicate 512 t, replicate 216 t]"
  by (simp add: token_windows.simps)

text \<open>
  C8. With the builders of section 4.2, a run of \<^verbatim>\<open>main\<close> that builds the indices leaves
  in the session a retrieval index whose units are, for each fetched document, its
  windows of 512 tokens with 128 tokens of overlap (each window has at most 512 tokens,
  each but the last exactly 512, its last 128 tokens are the first 128 of the next, and
  the windows joined without the overlaps are the document), and a summary index whose
  units are the same documents, whole. The vector build receives
  \<^verbatim>\<open>TokenTextSplitter(chunk_size=512, chunk_overlap=128)\<close> as its only transformation and
  the summary build receives none.
\<close>

theorem index_builds_split_and_whole:
  fixes lib :: "('c, node list, node list, 'e) library"
  assumes "VectorStoreIndex_from_documents lib = from_documents_model tok embedder"
    and "SummaryIndex_from_documents lib = from_documents_model tok summarizer"
    and "main lib inp (st, []) = (r, (Some ss', evs))"
    and "summary (session_of st) = None" and "indices_built ss'"
  shows "\<exists>docs.
           (\<exists>args br. GithubRepositoryReader_load_data lib args br = Inr docs) \<and>
           index ss' =
             Some (concat (map (\<lambda>d. map (\<lambda>w. \<lparr>node_path = file_path d, node_tokens = w\<rparr>)
                                       (token_windows 512 128 (tok (doc_text d)))) docs)) \<and>
           summary ss' = Some (map (document_node tok) docs) \<and>
           (\<forall>d \<in> set docs.
              overlapping_windows 512 128 (tok (doc_text d))
                (token_windows 512 128 (tok (doc_text d))))"
proof -
  from main_built_from [OF assms(3,4,5)] obtain args br docs i sm where
    l: "GithubRepositoryReader_load_data lib args br = Inr docs" and
    v: "VectorStoreIndex_from_documents lib docs True (Some [TokenTextSplitter 512 128]) = Inr i"
    and s: "SummaryIndex_from_documents lib docs True None = Inr sm" and
    st: "index ss' = Some i" "summary ss' = Some sm"
    unfolding built_from_def by blast
  from v assms(1) have
    i: "i = concat (map (\<lambda>d. map (\<lambda>w. \<lparr>node_path = file_path d, node_tokens = w\<rparr>)
                              (token_windows 512 128 (tok (doc_text d)))) docs)"
    by (auto simp: from_documents_model_def Let_def document_node_def comp_def
        split: sum.splits)
  from s assms(2) have sm: "sm = map (document_node tok) docs"
    by (auto simp: from_documents_model_def Let_def split: sum.splits)
  have "\<forall>d \<in> set docs.
          overlapping_windows 512 128 (tok (doc_text d))
            (token_windows 512 128 (tok (doc_text d)))"
    by (simp add: token_windows_overlapping_windows)
  with l i sm st show ?thesis by blast
qed

theorem index_builds_split_and_whole_witness:
  "VectorStoreIndex_from_documents modelled_lib =
     from_documents_model simple_tokens (\<lambda>_. Inr ()) \<and>
   SummaryIndex_from_documents modelled_lib =
     from_documents_model simple_tokens (\<lambda>_. Inr ()) \<and>
   main modelled_lib (example_widgets ''https://github.com/octocat/Hello-World'') (None, []) =
     (Inr (), Some modelled_built, modelled_events) \<and>
   summary (session_of None :: (unit, node list, node list, string) session_state) = None \<and>
   indices_built modelled_built \<and>
   (\<exists>docs.
      (\<exists>args br. GithubRepositoryReader_load_data modelled_lib args br = Inr docs) \<and>
      index modelled_built =
        Some (concat (map (\<lambda>d. map (\<lambda>w. \<lparr>node_path = file_path d, node_tokens = w\<rparr>)
                                  (token_windows 512 128 (simple_tokens (doc_text d)))) docs)) \<and>
      summary modelled_built = Some (map (document_node simple_tokens) docs) \<and>
      (\<forall>d \<in> set docs.
         overlapping_windows 512 128 (simple_tokens (doc_text d))
           (token_windows 512 128 (simple_tokens (doc_text d)))))"
proof -
  have h1: "VectorStoreIndex_from_documents modelled_lib =
     from_documents_model simple_tokens (\<lambda>_. Inr ())"
    by (simp add: modelled_lib_def)
  have h2: "SummaryIndex_from_documents modelled_lib =
     from_documents_model simple_tokens (\<lambda>_. Inr ())"
    by (simp add: modelled_lib_def)
  have h4: "summary (session_of None :: (unit, node list, node list, string) session_state)
              = None"
    by (simp add: session_of_def initial_session_def)
  have h5: "indices_built modelled_built"
    by (simp add: indices_built_def modelled_built_def)
  show ?thesis
    using index_builds_split_and_whole [OF h1 h2 modelled_run h4 h5] h1 h2 modelled_run h4 h5
    by simp
qed

subsection \<open>The chat history\<close>

text \<open>
  C6. A new session builds its indices and engines for \<^verbatim>\<open>octocat/Hello-World\<close>; two
  questions are then submitted, one after the other. Each submission raises
  \<^verbatim>\<open>AttributeError\<close> at line 228, for the reason given for C3, and line 234 is not
  reached: no entry is appended, where two are expected.
\<close>

theorem two_questions_append_nothing:
  "session
     [(chat_engine_lib, example_widgets ''https://github.com/octocat/Hello-World''),
      (chat_engine_lib, ask ''https://github.com/octocat/Hello-World''
                          ''What does this repository do?''),
      (chat_engine_lib, ask ''https://github.com/octocat/Hello-World'' ''Who wrote it?'')]
     None =
   (Some example_ready,
    [Requests_get ''https://github.com/octocat/Hello-World'', New_GithubClient,
     Load_data (Some ''octocat'') (Some ''Hello-World'') ([], EXCLUDE)
       ([''.png'', ''.jpg'', ''.jpeg'', ''.gif'', ''.svg'', ''.ico'', ''.pdf'', ''.csv''],
        EXCLUDE) ''master'',
     Build_VectorStoreIndex
       [\<lparr>file_path = ''README'', doc_text = ''Hello World!''\<rparr>,
        \<lparr>file_path = ''src/hello.py'', doc_text = ''print(1)''\<rparr>]
       (Some [TokenTextSplitter 512 128]),
     Build_SummaryIndex
       [\<lparr>file_path = ''README'', doc_text = ''Hello World!''\<rparr>,
        \<lparr>file_path = ''src/hello.py'', doc_text = ''print(1)''\<rparr>] None,
     Index_as_chat_engine, Summary_as_chat_engine,
     Requests_get ''https://github.com/octocat/Hello-World'',
     Requests_get ''https://github.com/octocat/Hello-World'']) \<and>
   ready example_ready \<and>
   chat_history example_ready = []"
  by code_simp

end
